theory Spec2Isabelle
  imports Main "HOL-Library.Sublist"
begin

section \<open>Strings\<close>

text \<open>
  A JavaScript string is modelled as a \<^typ>\<open>string\<close>, one \<^typ>\<open>char\<close> per code unit
  (code units below 256). \<^verbatim>\<open>s.includes(t)\<close> is \<^term>\<open>sublist t s\<close>,
  \<^verbatim>\<open>s.endsWith(t)\<close> is \<^term>\<open>suffix t s\<close>.
\<close>

abbreviation dq :: char where "dq \<equiv> CHR 0x22"
abbreviation nl :: char where "nl \<equiv> CHR 0x0A"
abbreviation bsl :: char where "bsl \<equiv> CHR 0x5C"

definition includes_str :: "string \<Rightarrow> string \<Rightarrow> bool" where
  "includes_str s t = sublist t s"

text \<open>\<^verbatim>\<open>x || d\<close> on an optional string: \<^verbatim>\<open>undefined\<close> and the empty string are falsy.\<close>

definition or_default :: "string option \<Rightarrow> string \<Rightarrow> string" where
  "or_default x d = (case x of None \<Rightarrow> d | Some s \<Rightarrow> if s = [] then d else s)"

text \<open>
  \<^verbatim>\<open>toLowerCase\<close> on one code unit below 256: the letters A to Z and the upper-case
  letters of Latin-1 (0xC0 to 0xDE without the multiplication sign 0xD7) move up by 32.
\<close>

definition lower_char :: "char \<Rightarrow> char" where
  "lower_char c =
     (let n = of_char c :: nat
      in if (65 \<le> n \<and> n \<le> 90) \<or> (192 \<le> n \<and> n \<le> 222 \<and> n \<noteq> 215)
         then char_of (n + 32) else c)"

definition toLowerCase :: "string \<Rightarrow> string" where
  "toLowerCase s = map lower_char s"

section \<open>Node's \<^verbatim>\<open>path\<close> module (POSIX flavour)\<close>

text \<open>
  The program calls \<^verbatim>\<open>path.basename\<close>, \<^verbatim>\<open>path.extname\<close>, \<^verbatim>\<open>path.join\<close> and
  \<^verbatim>\<open>path.resolve\<close> of the Node.js standard library. They are modelled here as
  Node implements them for POSIX paths, with \<^verbatim>\<open>/\<close> the only separator.
\<close>

definition strip_trailing_slashes :: "string \<Rightarrow> string" where
  "strip_trailing_slashes p = rev (dropWhile (\<lambda>c. c = CHR ''/'') (rev p))"

text \<open>The last segment of a path: trailing separators are ignored first.\<close>

definition path_basename :: "string \<Rightarrow> string" where
  "path_basename p =
     rev (takeWhile (\<lambda>c. c \<noteq> CHR ''/'') (rev (strip_trailing_slashes p)))"

text \<open>
  The extension starts at the last dot of the last segment. There is none when the
  segment has no dot, when its only dot is its first character, or when the segment
  is \<^verbatim>\<open>..\<close>.
\<close>

definition path_extname :: "string \<Rightarrow> string" where
  "path_extname p =
     (let base = path_basename p;
          ext = rev (takeWhile (\<lambda>c. c \<noteq> CHR ''.'') (rev base))
      in if CHR ''.'' \<notin> set base then []
         else if length ext + 1 = length base then []
         else if base = ''..'' then []
         else CHR ''.'' # ext)"

fun split_on :: "char \<Rightarrow> string \<Rightarrow> string list" where
  "split_on d [] = [[]]"
| "split_on d (c # cs) =
     (if c = d then [] # split_on d cs
      else (case split_on d cs of [] \<Rightarrow> [[c]] | s # ss \<Rightarrow> (c # s) # ss))"

fun join_with :: "string \<Rightarrow> string list \<Rightarrow> string" where
  "join_with sep [] = []"
| "join_with sep [s] = s"
| "join_with sep (s # t # ss) = s @ sep @ join_with sep (t # ss)"

text \<open>
  Node's \<^verbatim>\<open>normalizeString\<close>: empty and \<^verbatim>\<open>.\<close> segments are dropped, \<^verbatim>\<open>..\<close> removes
  the segment before it, or is kept when there is none to remove and the path is
  relative. The accumulator holds the kept segments, last first.
\<close>

fun normalize_segments :: "bool \<Rightarrow> string list \<Rightarrow> string list \<Rightarrow> string list" where
  "normalize_segments allowAboveRoot acc [] = rev acc"
| "normalize_segments allowAboveRoot acc (s # ss) =
     (if s = [] \<or> s = ''.'' then normalize_segments allowAboveRoot acc ss
      else if s = ''..'' then
        (case acc of
           t # ts \<Rightarrow>
             if t \<noteq> ''..'' then normalize_segments allowAboveRoot ts ss
             else if allowAboveRoot then normalize_segments allowAboveRoot (s # acc) ss
             else normalize_segments allowAboveRoot acc ss
         | [] \<Rightarrow>
             if allowAboveRoot then normalize_segments allowAboveRoot [s] ss
             else normalize_segments allowAboveRoot [] ss)
      else normalize_segments allowAboveRoot (s # acc) ss)"

definition normalizeString :: "string \<Rightarrow> bool \<Rightarrow> string" where
  "normalizeString p allowAboveRoot =
     join_with ''/'' (normalize_segments allowAboveRoot [] (split_on (CHR ''/'') p))"

definition isAbsolute :: "string \<Rightarrow> bool" where
  "isAbsolute p = (p \<noteq> [] \<and> hd p = CHR ''/'')"

definition path_normalize :: "string \<Rightarrow> string" where
  "path_normalize p =
     (if p = [] then ''.''
      else
        (let trailingSeparator = (last p = CHR ''/'');
             q = normalizeString p (\<not> isAbsolute p)
         in if q = [] then
              (if isAbsolute p then ''/'' else if trailingSeparator then ''./'' else ''.'')
            else
              (let q' = (if trailingSeparator then q @ ''/'' else q)
               in if isAbsolute p then CHR ''/'' # q' else q')))"

text \<open>\<^verbatim>\<open>path.join(a, b)\<close>: the non-empty arguments joined by a slash, then normalised.\<close>

definition path_join :: "string \<Rightarrow> string \<Rightarrow> string" where
  "path_join a b =
     (case filter (\<lambda>s. s \<noteq> []) [a, b] of
        [] \<Rightarrow> ''.''
      | parts \<Rightarrow> path_normalize (join_with ''/'' parts))"

text \<open>
  \<^verbatim>\<open>path.resolve(...args)\<close>: the arguments are taken from the right until an absolute
  one is met; the process's working directory \<open>pcwd\<close> is used when none is. The
  result is normalised and has no trailing separator.
\<close>

fun resolve_loop :: "string list \<Rightarrow> string \<Rightarrow> string" where
  "resolve_loop [] resolvedPath = resolvedPath"
| "resolve_loop (p # ps) resolvedPath =
     (if p = [] then resolve_loop ps resolvedPath
      else if isAbsolute p then p @ ''/'' @ resolvedPath
      else resolve_loop ps (p @ ''/'' @ resolvedPath))"

definition path_resolve :: "string \<Rightarrow> string list \<Rightarrow> string" where
  "path_resolve pcwd args =
     (let resolvedPath = resolve_loop (rev (pcwd # args)) [];
          resolvedAbsolute = isAbsolute resolvedPath;
          q = normalizeString resolvedPath (\<not> resolvedAbsolute)
      in if resolvedAbsolute then CHR ''/'' # q
         else if q \<noteq> [] then q else ''.'')"

section \<open>Data model (\<^verbatim>\<open>types.ts\<close>)\<close>

datatype GenerationMode = Traditional | Nextjs | Auto

datatype IconMode = ModeTraditional | ModeNextjs | ModeBoth

datatype IconFormat = FormatPng | FormatIco | FormatSvg

record IconConfig =
  filename :: string
  size :: nat
  format :: IconFormat
  icon_mode :: "IconMode option"

record GeneratorOptions =
  sourcePath :: string
  outputDir :: string
  color :: "string option"
  mode :: "GenerationMode option"
  projectRoot :: "string option"

record Framework =
  name :: string
  configFiles :: "string list"
  publicDir :: string
  appDir :: "string option"

definition ICON_CONFIGS :: "IconConfig list" where
  "ICON_CONFIGS =
     [\<lparr>filename = ''favicon.ico'', size = 32, format = FormatIco, icon_mode = Some ModeBoth\<rparr>,
      \<lparr>filename = ''icon-192.png'', size = 192, format = FormatPng, icon_mode = Some ModeTraditional\<rparr>,
      \<lparr>filename = ''icon-512.png'', size = 512, format = FormatPng, icon_mode = Some ModeTraditional\<rparr>,
      \<lparr>filename = ''apple-touch-icon.png'', size = 180, format = FormatPng, icon_mode = Some ModeBoth\<rparr>,
      \<lparr>filename = ''icon-maskable.png'', size = 512, format = FormatPng, icon_mode = Some ModeTraditional\<rparr>,
      \<lparr>filename = ''icon.png'', size = 512, format = FormatPng, icon_mode = Some ModeNextjs\<rparr>,
      \<lparr>filename = ''apple-icon.png'', size = 180, format = FormatPng, icon_mode = Some ModeNextjs\<rparr>]"

definition FRAMEWORKS :: "Framework list" where
  "FRAMEWORKS =
     [\<lparr>name = ''Next.js'',
       configFiles = [''next.config.js'', ''next.config.mjs'', ''next.config.ts''],
       publicDir = ''public'', appDir = Some ''app''\<rparr>,
      \<lparr>name = ''Astro'',
       configFiles = [''astro.config.mjs'', ''astro.config.js'', ''astro.config.ts''],
       publicDir = ''public'', appDir = None\<rparr>,
      \<lparr>name = ''SvelteKit'', configFiles = [''svelte.config.js''],
       publicDir = ''static'', appDir = None\<rparr>,
      \<lparr>name = ''Remix'', configFiles = [''remix.config.js''],
       publicDir = ''public'', appDir = None\<rparr>,
      \<lparr>name = ''Vite'', configFiles = [''vite.config.js'', ''vite.config.ts''],
       publicDir = ''public'', appDir = None\<rparr>]"

section \<open>Mode resolution (\<^verbatim>\<open>generator.ts\<close>, \<^verbatim>\<open>IconGenerator\<close>)\<close>

text \<open>
  \<^verbatim>\<open>resolveMode(mode)\<close>: only \<^verbatim>\<open>'auto'\<close> looks at the output directory; any other
  mode is returned as it is, and \<^verbatim>\<open>undefined\<close> falls back to traditional.
\<close>

definition resolveMode :: "GeneratorOptions \<Rightarrow> GenerationMode option \<Rightarrow> GenerationMode" where
  "resolveMode opts m =
     (if m = Some Auto then
        (let outputDirName = path_basename (outputDir opts)
         in if outputDirName = ''app'' \<or> includes_str (outputDir opts) ''/app''
            then Nextjs else Traditional)
      else (case m of None \<Rightarrow> Traditional | Some m' \<Rightarrow> m'))"

text \<open>
  The constructor: \<^verbatim>\<open>this.mode = this.resolveMode(options.mode || 'traditional')\<close>.
  The generator is its options and the mode resolved once at construction.
\<close>

record IconGenerator =
  options :: GeneratorOptions
  gen_mode :: GenerationMode

definition new_IconGenerator :: "GeneratorOptions \<Rightarrow> IconGenerator" where
  "new_IconGenerator opts =
     \<lparr>options = opts,
      gen_mode = resolveMode opts
        (case mode opts of None \<Rightarrow> Some Traditional | Some m \<Rightarrow> Some m)\<rparr>"

definition getMode :: "IconGenerator \<Rightarrow> GenerationMode" where
  "getMode g = gen_mode g"

text \<open>
  The command line's action, on the branch where \<^verbatim>\<open>--output\<close> was given: the mode
  option is a free string, replaced by \<^verbatim>\<open>'auto'\<close> when it is none of the three
  names; the output directory is resolved against the working directory; and only
  when the mode is \<^verbatim>\<open>'auto'\<close> is it determined from the path. The result is the
  pair handed to the generator.
\<close>

definition parse_mode :: "string \<Rightarrow> GenerationMode" where
  "parse_mode s =
     (if s = ''traditional'' then Traditional
      else if s = ''nextjs'' then Nextjs
      else Auto)"

definition cli_mode_with_output :: "string \<Rightarrow> string \<Rightarrow> string \<Rightarrow> GenerationMode \<times> string" where
  "cli_mode_with_output cwd mode_option output =
     (let m = parse_mode mode_option;
          outDir = path_resolve cwd [output]
      in if m = Auto then
           (let outputBasename = path_basename outDir
            in if outputBasename = ''app'' \<or> includes_str outDir ''/app''
               then (Nextjs, outDir) else (Traditional, outDir))
         else (m, outDir))"

definition cli_resolved_mode :: "string \<Rightarrow> string \<Rightarrow> string \<Rightarrow> string \<Rightarrow> string option \<Rightarrow> GenerationMode" where
  "cli_resolved_mode cwd src mode_option output col =
     (let (m, outDir) = cli_mode_with_output cwd mode_option output
      in getMode (new_IconGenerator
           \<lparr>sourcePath = src, outputDir = outDir, color = col, mode = Some m,
            projectRoot = None\<rparr>))"

section \<open>Icon generation (\<^verbatim>\<open>generator.ts\<close>)\<close>

subsection \<open>Numbers\<close>

text \<open>
  \<^verbatim>\<open>Math.floor(size * 0.6)\<close> is computed on IEEE-754 doubles. The literal \<^verbatim>\<open>0.6\<close> is
  the double \<open>5404319552844595 / 2^53\<close>; the product with the whole number \<open>n\<close> is
  rounded to 53 significant bits, ties to even, and then floored. (For \<open>n\<close> below
  \<open>2^53\<close>, which every pixel size is.)
\<close>

fun bit_length :: "nat \<Rightarrow> nat" where
  "bit_length n = (if n = 0 then 0 else Suc (bit_length (n div 2)))"

declare bit_length.simps [simp del]

definition mantissa_0_6 :: nat where
  "mantissa_0_6 = 5404319552844595"

definition floor_times_0_6 :: "nat \<Rightarrow> nat" where
  "floor_times_0_6 n =
     (let p = n * mantissa_0_6;
          e = bit_length p - 53;
          q = p div 2 ^ e;
          r = p mod 2 ^ e;
          q' = (if 2 * r > 2 ^ e \<or> (2 * r = 2 ^ e \<and> odd q) then q + 1 else q)
      in (q' * 2 ^ e) div 2 ^ 53)"

subsection \<open>The image pipeline\<close>

text \<open>
  A \<^verbatim>\<open>sharp\<close> instance is a description of the pipeline, filled in by the builder
  calls: \<^verbatim>\<open>resize\<close> sets the target width and height (a later call replaces an
  earlier one), \<^verbatim>\<open>extend\<close> sets the border added on each side after resizing. With
  \<^verbatim>\<open>fit: 'contain'\<close> the resized image has exactly the target size, so the image
  written has the target size plus the borders.
\<close>

record Sharp =
  input :: string
  width :: nat
  height :: nat
  extendTop :: nat
  extendBottom :: nat
  extendLeft :: nat
  extendRight :: nat

definition sharp :: "string \<Rightarrow> Sharp" where
  "sharp src = \<lparr>input = src, width = 0, height = 0, extendTop = 0, extendBottom = 0,
     extendLeft = 0, extendRight = 0\<rparr>"

definition sharp_resize :: "nat \<Rightarrow> nat \<Rightarrow> Sharp \<Rightarrow> Sharp" where
  "sharp_resize w h s = s\<lparr>width := w, height := h\<rparr>"

definition sharp_extend :: "nat \<Rightarrow> nat \<Rightarrow> nat \<Rightarrow> nat \<Rightarrow> Sharp \<Rightarrow> Sharp" where
  "sharp_extend t b l r s = s\<lparr>extendTop := t, extendBottom := b, extendLeft := l, extendRight := r\<rparr>"

definition output_width :: "Sharp \<Rightarrow> nat" where
  "output_width s = extendLeft s + width s + extendRight s"

definition output_height :: "Sharp \<Rightarrow> nat" where
  "output_height s = extendTop s + height s + extendBottom s"

definition addMaskablePadding :: "Sharp \<Rightarrow> nat \<Rightarrow> Sharp" where
  "addMaskablePadding sharpInstance sz =
     (let paddedSize = floor_times_0_6 sz;
          padding = (sz - paddedSize) div 2
      in sharp_extend padding padding padding padding (sharp_resize paddedSize paddedSize sharpInstance))"

subsection \<open>File-system effects\<close>

text \<open>
  The generator only writes (and reads the source once), so a run is modelled by the
  list of file-system operations it awaits, in order, each assumed to succeed: a
  failing operation rejects and ends the run there. The icons of \<^verbatim>\<open>Promise.all\<close>
  write to different paths; they are listed in catalog order.
  \<^verbatim>\<open>JSON.stringify(v, null, 2)\<close> is kept as the value \<open>v\<close> it serialises.
\<close>

datatype json = JString string | JArray "json list" | JObject "(string \<times> json) list"

datatype content = Text string | JsonText json

datatype fs_op =
    Mkdir string
  | ToFile string nat nat
  | Rename string string
  | CopyFile string string
  | WriteFile string content
  | Warn

text \<open>\<^verbatim>\<open>s.replace(pat, rep)\<close> with a string pattern: the first occurrence only
  (\<open>rep\<close> is used where it has no \<^verbatim>\<open>$\<close>).\<close>

fun replace_first :: "string \<Rightarrow> string \<Rightarrow> string \<Rightarrow> string" where
  "replace_first pat rep [] = (if pat = [] then rep else [])"
| "replace_first pat rep (c # cs) =
     (if prefix pat (c # cs) then rep @ drop (length pat) (c # cs)
      else c # replace_first pat rep cs)"

definition generateIcon :: "IconGenerator \<Rightarrow> IconConfig \<Rightarrow> fs_op list" where
  "generateIcon g config =
     (let outputPath = path_join (outputDir (options g)) (filename config);
          s0 = sharp_resize (size config) (size config) (sharp (sourcePath (options g)));
          s1 = (if filename config = ''icon-maskable.png''
                then addMaskablePadding s0 (size config) else s0)
      in if format config = FormatIco then
           [ToFile (replace_first ''.ico'' ''.png'' outputPath) (output_width s1) (output_height s1),
            Rename (replace_first ''.ico'' ''.png'' outputPath) outputPath]
         else [ToFile outputPath (output_width s1) (output_height s1)])"

definition copySVGSource :: "IconGenerator \<Rightarrow> fs_op list" where
  "copySVGSource g =
     [CopyFile (sourcePath (options g)) (path_join (outputDir (options g)) ''icon.svg'')]"

subsection \<open>The monochrome pinned-tab variant\<close>

text \<open>
  \<^verbatim>\<open>String.prototype.replace\<close> expands the replacement text at each match
  (\<^verbatim>\<open>GetSubstitution\<close>, here without capture groups): \<^verbatim>\<open>$$\<close> is a dollar sign,
  \<^verbatim>\<open>$&\<close> the matched text, \<^verbatim>\<open>$`\<close> the text before the match and \<^verbatim>\<open>$'\<close> the text
  after it; any other character stands for itself.
\<close>

fun getSubstitution :: "string \<Rightarrow> string \<Rightarrow> string \<Rightarrow> string \<Rightarrow> string" where
  "getSubstitution matched preceding following [] = []"
| "getSubstitution matched preceding following [c] = [c]"
| "getSubstitution matched preceding following (c # d # t) =
     (if c = CHR ''$'' \<and> d = CHR ''$'' then CHR ''$'' # getSubstitution matched preceding following t
      else if c = CHR ''$'' \<and> d = CHR ''&'' then matched @ getSubstitution matched preceding following t
      else if c = CHR ''$'' \<and> d = CHR 0x60 then preceding @ getSubstitution matched preceding following t
      else if c = CHR ''$'' \<and> d = CHR 0x27 then following @ getSubstitution matched preceding following t
      else c # getSubstitution matched preceding following (d # t))"

text \<open>
  A match of the pattern \<^verbatim>\<open>NAME="[^"]*"\<close> at the start of \<open>s\<close>: the literal
  \<^verbatim>\<open>NAME="\<close>, then every character up to the next double quote, which must be there.
  The result is the length of the match.
\<close>

definition match_attr :: "string \<Rightarrow> string \<Rightarrow> nat option" where
  "match_attr nm s =
     (let lit = nm @ [CHR ''='', dq]
      in if prefix lit s then
           (let rest = drop (length lit) s;
                val = takeWhile (\<lambda>c. c \<noteq> dq) rest
            in if length val < length rest then Some (length lit + length val + 1) else None)
         else None)"

text \<open>
  The global replace: matches are looked for from left to right, and the search goes on
  after the end of each match. \<open>preceding\<close> is the part of the subject already passed.
\<close>

function replace_attr :: "string \<Rightarrow> string \<Rightarrow> string \<Rightarrow> string \<Rightarrow> string" where
  "replace_attr nm rep preceding s =
     (case s of
        [] \<Rightarrow> []
      | c # cs \<Rightarrow>
          (case match_attr nm s of
             Some n \<Rightarrow>
               getSubstitution (take n s) preceding (drop n s) rep
                 @ replace_attr nm rep (preceding @ take n s) (drop n s)
           | None \<Rightarrow> c # replace_attr nm rep (preceding @ [c]) cs))"
  by pat_completeness auto
termination
  by (relation "measure (\<lambda>(nm, rep, preceding, s). length s)")
     (auto simp: match_attr_def Let_def split: if_splits)

declare replace_attr.simps [simp del]

text \<open>
  One pass of the conversion, \<^verbatim>\<open>s.replace(/NAME="[^"]*"/g, `NAME="${color}"`)\<close>, and
  the two passes in the order of the source: \<^verbatim>\<open>fill\<close> first, then \<^verbatim>\<open>stroke\<close> on the
  result.
\<close>

definition replace_attr_values :: "string \<Rightarrow> string \<Rightarrow> string \<Rightarrow> string" where
  "replace_attr_values nm col s =
     replace_attr nm (nm @ [CHR ''='', dq] @ col @ [dq]) [] s"

definition monochromeSVG :: "string \<Rightarrow> string \<Rightarrow> string" where
  "monochromeSVG monochromeColor sourceSVG =
     replace_attr_values ''stroke'' monochromeColor
       (replace_attr_values ''fill'' monochromeColor sourceSVG)"

text \<open>\<open>sourceSVG\<close> is what \<^verbatim>\<open>fs.readFile(sourcePath, 'utf-8')\<close> returned.\<close>

definition generateSafariPinnedTab :: "IconGenerator \<Rightarrow> string \<Rightarrow> fs_op list" where
  "generateSafariPinnedTab g sourceSVG =
     (let monochromeColor = or_default (color (options g)) ''#000000''
      in [WriteFile (path_join (outputDir (options g)) ''safari-pinned-tab.svg'')
            (Text (monochromeSVG monochromeColor sourceSVG))])"

subsection \<open>Manifest, integration guide and the run\<close>

definition manifest :: json where
  "manifest =
     JObject [(''icons'', JArray
       [JObject [(''src'', JString ''/icon-192.png''), (''sizes'', JString ''192x192''),
                 (''type'', JString ''image/png'')],
        JObject [(''src'', JString ''/icon-512.png''), (''sizes'', JString ''512x512''),
                 (''type'', JString ''image/png'')],
        JObject [(''src'', JString ''/icon-maskable.png''), (''sizes'', JString ''512x512''),
                 (''type'', JString ''image/png''), (''purpose'', JString ''maskable'')]])]"

definition generateManifest :: "IconGenerator \<Rightarrow> fs_op list" where
  "generateManifest g =
     [WriteFile (path_join (outputDir (options g)) ''site.webmanifest'') (JsonText manifest)]"

text \<open>Reading a manifest value: the member of an object, the elements of an array.\<close>

fun json_member :: "string \<Rightarrow> json \<Rightarrow> json option" where
  "json_member k (JObject kvs) = map_of kvs k"
| "json_member k _ = None"

fun json_elements :: "json option \<Rightarrow> json list" where
  "json_elements (Some (JArray xs)) = xs"
| "json_elements _ = []"

definition isSourceSVG :: "IconGenerator \<Rightarrow> bool" where
  "isSourceSVG g = suffix ''.svg'' (toLowerCase (sourcePath (options g)))"

definition snippet_nextjs :: "bool \<Rightarrow> string" where
  \<open>snippet_nextjs svg = join_with [nl]
     [''<!-- Next.js App Router Mode -->'',
      ''<!-- Icons are automatically linked by Next.js from the /app directory -->'',
      ''<!-- No manual <link> tags needed! -->'',
      [],
      ''Generated files in app/:'',
      ''- favicon.ico (32'' @ [CHR 0xD7] @ ''32) - automatically linked as /favicon.ico'',
      ''- icon.png (512'' @ [CHR 0xD7] @ ''512) - automatically linked with proper metadata'',
      ''- apple-icon.png (180'' @ [CHR 0xD7] @ ''180) - automatically linked as apple-touch-icon'',
      (if svg then ''- icon.svg - automatically linked with type="image/svg+xml"'' else []),
      [],
      ''Next.js will automatically generate these <head> tags:'',
      ''<link rel="icon" href="/favicon.ico" sizes="any" />'',
      ''<link rel="icon" href="/icon.png" type="image/png" sizes="512x512" />'',
      ''<link rel="apple-touch-icon" href="/apple-icon.png" sizes="180x180" />'',
      (if svg then ''<link rel="icon" href="/icon.svg" type="image/svg+xml" />'' else []),
      [],
      ''For PWA support, add site.webmanifest to public/ and reference it in your layout.tsx metadata.'']\<close>

text \<open>
  The block of link tags: the template literal up to the colour, the colour, and the
  two characters that close the last tag. The generator's traditional guide and the
  HTML integrator's \<^verbatim>\<open>iconTags\<close> are the same template literal.
\<close>

definition iconTags_lead :: string where
  \<open>iconTags_lead = join_with [nl]
     [''<!-- Favicon (modern + fallback) -->'',
      ''<link rel="icon" href="/icon.svg" type="image/svg+xml">'',
      ''<link rel="icon" href="/favicon.ico" sizes="any">'',
      [],
      ''<!-- Apple Touch Icon -->'',
      ''<link rel="apple-touch-icon" href="/apple-touch-icon.png">'',
      [],
      ''<!-- Web App Manifest (PWA) -->'',
      ''<link rel="manifest" href="/site.webmanifest">'',
      [],
      ''<!-- Safari Pinned Tab -->'',
      ''<link rel="mask-icon" href="/safari-pinned-tab.svg" color="'']\<close>

definition iconTags :: "string \<Rightarrow> string" where
  \<open>iconTags col = iconTags_lead @ col @ ''">''\<close>

definition getInstructionsFilePath :: "IconGenerator \<Rightarrow> string" where
  "getInstructionsFilePath g =
     path_join (or_default (projectRoot (options g)) (outputDir (options g)))
       ''icon-integration-guide.txt''"

definition generateHTMLSnippet :: "IconGenerator \<Rightarrow> fs_op list" where
  "generateHTMLSnippet g =
     (let snippet =
            (if gen_mode g = Nextjs then snippet_nextjs (isSourceSVG g)
             else iconTags (or_default (color (options g)) ''#5bbad5''))
      in [WriteFile (getInstructionsFilePath g) (Text snippet)])"

definition icon_applies :: "GenerationMode \<Rightarrow> IconConfig \<Rightarrow> bool" where
  "icon_applies m config =
     (case icon_mode config of
        None \<Rightarrow> True
      | Some ModeBoth \<Rightarrow> True
      | Some ModeTraditional \<Rightarrow> m = Traditional
      | Some ModeNextjs \<Rightarrow> m = Nextjs)"

definition generate :: "IconGenerator \<Rightarrow> string \<Rightarrow> fs_op list" where
  "generate g sourceSVG =
     (let iconsToGenerate = filter (icon_applies (gen_mode g)) ICON_CONFIGS
      in [Mkdir (outputDir (options g))]
         @ concat (map (generateIcon g) iconsToGenerate)
         @ (if isSourceSVG g then
              copySVGSource g
              @ (if gen_mode g = Traditional then generateSafariPinnedTab g sourceSVG else [])
            else [Warn])
         @ (if gen_mode g = Traditional then generateManifest g else [])
         @ generateHTMLSnippet g)"

text \<open>The manifest documents a run writes, each with its path.\<close>

fun manifest_writes :: "fs_op list \<Rightarrow> (string \<times> json) list" where
  "manifest_writes [] = []"
| "manifest_writes (WriteFile p (JsonText j) # ops) = (p, j) # manifest_writes ops"
| "manifest_writes (_ # ops) = manifest_writes ops"

section \<open>Framework detection and source validation (\<^verbatim>\<open>utils.ts\<close>)\<close>

text \<open>
  These functions only ask the file system whether a path is accessible:
  \<open>access p\<close> says that \<^verbatim>\<open>fs.access(p)\<close> resolves.
\<close>

fun detect_configs :: "(string \<Rightarrow> bool) \<Rightarrow> string \<Rightarrow> string list \<Rightarrow> bool" where
  "detect_configs access cwd [] = False"
| "detect_configs access cwd (configFile # rest) =
     (if access (path_join cwd configFile) then True else detect_configs access cwd rest)"

fun detect_loop :: "(string \<Rightarrow> bool) \<Rightarrow> string \<Rightarrow> Framework list \<Rightarrow> Framework option" where
  "detect_loop access cwd [] = None"
| "detect_loop access cwd (framework # rest) =
     (if detect_configs access cwd (configFiles framework) then Some framework
      else detect_loop access cwd rest)"

definition detect :: "(string \<Rightarrow> bool) \<Rightarrow> string \<Rightarrow> Framework option" where
  "detect access cwd = detect_loop access cwd FRAMEWORKS"

definition getPublicDir :: "(string \<Rightarrow> bool) \<Rightarrow> string \<Rightarrow> string" where
  "getPublicDir access cwd =
     (case detect access cwd of
        Some framework \<Rightarrow> path_join cwd (publicDir framework)
      | None \<Rightarrow> path_join cwd ''public'')"

definition getAppDir :: "(string \<Rightarrow> bool) \<Rightarrow> string \<Rightarrow> string option" where
  "getAppDir access cwd =
     (case detect access cwd of
        None \<Rightarrow> None
      | Some framework \<Rightarrow>
          (case appDir framework of
             None \<Rightarrow> None
           | Some d \<Rightarrow>
               if d = [] then None
               else if access (path_join cwd d) then Some (path_join cwd d)
               else if access (path_join (path_join cwd ''src'') d)
                 then Some (path_join (path_join cwd ''src'') d)
               else None))"

definition hasAppRouter :: "(string \<Rightarrow> bool) \<Rightarrow> string \<Rightarrow> bool" where
  "hasAppRouter access cwd = (getAppDir access cwd \<noteq> None)"

fun findAppIcon_loop :: "(string \<Rightarrow> bool) \<Rightarrow> string \<Rightarrow> string list \<Rightarrow> string option" where
  "findAppIcon_loop access cwd [] = None"
| "findAppIcon_loop access cwd (nm # rest) =
     (if access (path_join cwd nm) then Some (path_join cwd nm)
      else findAppIcon_loop access cwd rest)"

definition findAppIcon :: "(string \<Rightarrow> bool) \<Rightarrow> string \<Rightarrow> string option" where
  "findAppIcon access cwd = findAppIcon_loop access cwd [''app-icon.svg'', ''app-icon.png'']"

datatype error =
    SourceFileNotFound string
  | InvalidFileFormat string
  | HtmlFileNotFound string
  | ReadFailed string

definition validExtensions :: "string list" where
  "validExtensions = [''.svg'', ''.png'', ''.jpg'', ''.jpeg'']"

definition validateSourceFile :: "(string \<Rightarrow> bool) \<Rightarrow> string \<Rightarrow> error + unit" where
  "validateSourceFile access p =
     (if \<not> access p then Inl (SourceFileNotFound p)
      else
        (let ext = toLowerCase (path_extname p)
         in if ext \<notin> set validExtensions
            then Inl (InvalidFileFormat (join_with '', '' validExtensions))
            else Inr ()))"

section \<open>HTML integration (\<^verbatim>\<open>mcp.ts\<close>, \<^verbatim>\<open>handleIntegrateIconsHTML\<close>)\<close>

text \<open>
  The integrator reads and rewrites one text file, so here the file system is a store:
  a path holds a directory, a file with its text, or nothing. \<^verbatim>\<open>fs.access\<close> resolves
  on the first two, \<^verbatim>\<open>fs.readFile\<close> on a file only.
\<close>

datatype node = Dir | File string

type_synonym filesystem = "string \<rightharpoonup> node"

definition fs_access :: "filesystem \<Rightarrow> string \<Rightarrow> bool" where
  "fs_access fs p = (fs p \<noteq> None)"

definition fs_readFile :: "filesystem \<Rightarrow> string \<Rightarrow> error + string" where
  "fs_readFile fs p = (case fs p of Some (File t) \<Rightarrow> Inr t | _ \<Rightarrow> Inl (ReadFailed p))"

definition fs_writeFile :: "filesystem \<Rightarrow> string \<Rightarrow> string \<Rightarrow> filesystem" where
  "fs_writeFile fs p t = fs(p \<mapsto> File t)"

text \<open>The arguments of the tool, as the schema accepts them.\<close>

record IntegrateIconsHTMLArgs =
  projectPath :: string
  htmlPath :: "string option"
  tagColor :: "string option"

text \<open>The three answers of the tool, each naming the file it looked at.\<close>

datatype outcome =
    TagsAlreadyExist string
  | TagsAdded string
  | HeadNotFound string

fun findHTMLEntryPoint_loop :: "filesystem \<Rightarrow> string \<Rightarrow> string list \<Rightarrow> string" where
  "findHTMLEntryPoint_loop fs projPath [] = path_join projPath ''index.html''"
| "findHTMLEntryPoint_loop fs projPath (candidate # rest) =
     (if fs_access fs (path_join projPath candidate) then path_join projPath candidate
      else findHTMLEntryPoint_loop fs projPath rest)"

definition findHTMLEntryPoint :: "filesystem \<Rightarrow> string \<Rightarrow> string" where
  "findHTMLEntryPoint fs projPath =
     findHTMLEntryPoint_loop fs projPath
       [''index.html'', ''public/index.html'', ''src/index.html'', ''app/index.html'',
        ''src/app/layout.tsx'', ''src/routes/+layout.svelte'', ''src/pages/_document.tsx'',
        ''app/root.tsx'']"

text \<open>
  The pattern \<^verbatim>\<open>/(<head[^>]*>)/i\<close>. A match at the start of \<open>s\<close> is the five
  characters \<^verbatim>\<open><head\<close> in either case, then everything up to the next \<^verbatim>\<open>>\<close>, which
  must be there; the result is its length. The search tries each position from the
  left and gives the index and the length of the first match.
\<close>

definition head_match :: "string \<Rightarrow> nat option" where
  "head_match s =
     (if length s \<ge> 5 \<and> map lower_char (take 5 s) = ''<head'' then
        (let rest = drop 5 s;
             attrs = takeWhile (\<lambda>c. c \<noteq> CHR ''>'') rest
         in if length attrs < length rest then Some (5 + length attrs + 1) else None)
      else None)"

fun head_search :: "string \<Rightarrow> (nat \<times> nat) option" where
  "head_search [] = None"
| "head_search (c # cs) =
     (case head_match (c # cs) of
        Some n \<Rightarrow> Some (0, n)
      | None \<Rightarrow> (case head_search cs of None \<Rightarrow> None | Some (i, n) \<Rightarrow> Some (Suc i, n)))"

text \<open>\<^verbatim>\<open>s.split(sep)\<close> with a string separator.\<close>

function split_str :: "string \<Rightarrow> string \<Rightarrow> string list" where
  "split_str sep s =
     (if sep = [] then map (\<lambda>c. [c]) s
      else if s = [] then [[]]
      else if prefix sep s then [] # split_str sep (drop (length sep) s)
      else (case split_str sep (tl s) of
              [] \<Rightarrow> [[hd s]]
            | piece # pieces \<Rightarrow> (hd s # piece) # pieces))"
  by pat_completeness auto
termination
  by (relation "measure (\<lambda>(sep, s). length s)") auto

declare split_str.simps [simp del]

text \<open>
  The text put after the head tag:
  \<^verbatim>\<open>'\\n  ' + iconTags.split('\\n').join('\\n  ') + '\\n'\<close>. In the source each of
  these string literals is written with two backslashes, so it denotes a backslash
  followed by the letter n, not a line break.
\<close>

definition backslash_n :: string where
  "backslash_n = [bsl, CHR ''n'']"

definition head_insertion :: "string \<Rightarrow> string" where
  "head_insertion col =
     (backslash_n @ ''  '')
     @ join_with (backslash_n @ ''  '') (split_str backslash_n (iconTags col))
     @ backslash_n"

text \<open>The file the tool works on: the given one, or the entry point found.\<close>

definition resolveHtmlFile :: "string \<Rightarrow> IntegrateIconsHTMLArgs \<Rightarrow> filesystem \<Rightarrow> string" where
  "resolveHtmlFile pcwd args fs =
     (let projPath = path_resolve pcwd [projectPath args]
      in case htmlPath args of
           None \<Rightarrow> findHTMLEntryPoint fs projPath
         | Some h \<Rightarrow>
             if h = [] then findHTMLEntryPoint fs projPath
             else path_resolve pcwd [projPath, h])"

text \<open>
  The colour: the schema fills in the default when none is given, and the handler
  again replaces an empty one by the default.
\<close>

definition resolveColor :: "IntegrateIconsHTMLArgs \<Rightarrow> string" where
  "resolveColor args =
     or_default (Some (case tagColor args of None \<Rightarrow> ''#5bbad5'' | Some c \<Rightarrow> c)) ''#5bbad5''"

definition handleIntegrateIconsHTML ::
  "string \<Rightarrow> IntegrateIconsHTMLArgs \<Rightarrow> filesystem \<Rightarrow> error + (outcome \<times> filesystem)" where
  "handleIntegrateIconsHTML pcwd args fs =
     (let col = resolveColor args;
          htmlFile = resolveHtmlFile pcwd args fs
      in if \<not> fs_access fs htmlFile then Inl (HtmlFileNotFound htmlFile)
         else
           (case fs_readFile fs htmlFile of
              Inl e \<Rightarrow> Inl e
            | Inr htmlContent \<Rightarrow>
                if includes_str htmlContent ''apple-touch-icon''
                   \<or> includes_str htmlContent ''site.webmanifest''
                then Inr (TagsAlreadyExist htmlFile, fs)
                else
                  (case head_search htmlContent of
                     Some (idx, len) \<Rightarrow>
                       (let headEndIndex = idx + len;
                            updatedHTML =
                              take headEndIndex htmlContent
                              @ head_insertion col
                              @ drop headEndIndex htmlContent
                        in Inr (TagsAdded htmlFile, fs_writeFile fs htmlFile updatedHTML))
                   | None \<Rightarrow> Inr (HeadNotFound htmlFile, fs))))"

section \<open>Mode resolution: results\<close>

text \<open>
  Claim C1 says that an explicit output directory named \<^verbatim>\<open>app\<close> (or containing
  \<^verbatim>\<open>/app\<close>) makes the resolved mode app-router whatever mode was requested. It does
  not: with the request \<^verbatim>\<open>traditional\<close> and the output directory \<^verbatim>\<open>/site/app\<close>,
  both the generator and the command line (run in \<^verbatim>\<open>/site\<close> with \<^verbatim>\<open>--output app\<close>)
  keep traditional.
\<close>

theorem explicit_mode_ignores_app_dir:
  "getMode (new_IconGenerator
      \<lparr>sourcePath = ''/site/icon.svg'', outputDir = ''/site/app'', color = None,
       mode = Some Traditional, projectRoot = None\<rparr>) = Traditional
   \<and> snd (cli_mode_with_output ''/site'' ''traditional'' ''app'') = ''/site/app''
   \<and> path_basename ''/site/app'' = ''app''
   \<and> cli_resolved_mode ''/site'' ''/site/icon.svg'' ''traditional'' ''app'' None = Traditional"
  by (simp add: getMode_def new_IconGenerator_def resolveMode_def cli_resolved_mode_def
      cli_mode_with_output_def parse_mode_def path_resolve_def isAbsolute_def normalizeString_def
      path_basename_def strip_trailing_slashes_def Let_def)

text \<open>
  Claim C1, amended: the output directory decides the mode only when the requested mode
  is \<^verbatim>\<open>auto\<close>; then a basename \<^verbatim>\<open>app\<close> or a path containing \<^verbatim>\<open>/app\<close> gives app-router
  and anything else traditional. An explicit request, traditional or nextjs, is the
  resolved mode whatever the output directory is, in the generator and on the command
  line with \<^verbatim>\<open>--output\<close>.
\<close>

theorem mode_from_path_only_when_auto:
  "getMode (new_IconGenerator (opts\<lparr>mode := Some Auto\<rparr>)) =
     (if path_basename (outputDir opts) = ''app'' \<or> sublist ''/app'' (outputDir opts)
      then Nextjs else Traditional)
   \<and> getMode (new_IconGenerator (opts\<lparr>mode := Some Traditional\<rparr>)) = Traditional
   \<and> getMode (new_IconGenerator (opts\<lparr>mode := Some Nextjs\<rparr>)) = Nextjs
   \<and> cli_resolved_mode cwd src ''auto'' output col =
        (if path_basename (path_resolve cwd [output]) = ''app''
            \<or> sublist ''/app'' (path_resolve cwd [output])
         then Nextjs else Traditional)
   \<and> cli_resolved_mode cwd src ''traditional'' output col = Traditional
   \<and> cli_resolved_mode cwd src ''nextjs'' output col = Nextjs"
  by (simp add: getMode_def new_IconGenerator_def resolveMode_def cli_resolved_mode_def
      cli_mode_with_output_def parse_mode_def includes_str_def Let_def)

theorem mode_from_path_only_when_auto_witness:
  "getMode (new_IconGenerator
      \<lparr>sourcePath = ''/site/icon.svg'', outputDir = ''/site/app'', color = None,
       mode = Some Auto, projectRoot = None\<rparr>) = Nextjs
   \<and> cli_resolved_mode ''/site'' ''/site/icon.svg'' ''auto'' ''public'' None = Traditional"
  using mode_from_path_only_when_auto
    [of "\<lparr>sourcePath = ''/site/icon.svg'', outputDir = ''/site/app'', color = None,
          mode = None, projectRoot = None\<rparr>" "''/site''" "''/site/icon.svg''" "''public''" None]
  by (simp add: path_resolve_def isAbsolute_def normalizeString_def path_basename_def
      strip_trailing_slashes_def Let_def sublist_code prefix_code)

text \<open>
  Claim C8: a generator built without a mode resolves to traditional, as an explicit
  \<^verbatim>\<open>traditional\<close> does, whatever its output directory is; \<^verbatim>\<open>auto\<close> on the output
  directory \<^verbatim>\<open>/site/app\<close> gives app-router instead.
\<close>

theorem omitted_mode_is_traditional:
  "getMode (new_IconGenerator (opts\<lparr>mode := None\<rparr>)) = Traditional
   \<and> getMode (new_IconGenerator (opts\<lparr>mode := None\<rparr>))
       = getMode (new_IconGenerator (opts\<lparr>mode := Some Traditional\<rparr>))
   \<and> getMode (new_IconGenerator (opts\<lparr>outputDir := ''/site/app'', mode := None\<rparr>)) = Traditional
   \<and> getMode (new_IconGenerator (opts\<lparr>outputDir := ''/site/app'', mode := Some Auto\<rparr>)) = Nextjs"
  by (simp add: getMode_def new_IconGenerator_def resolveMode_def includes_str_def
      path_basename_def strip_trailing_slashes_def)

section \<open>Icon generation: results\<close>

lemma bit_length_zero: "bit_length 0 = 0"
  by (simp add: bit_length.simps)

lemma bit_length_one: "bit_length (Suc 0) = 1"
  by (simp add: bit_length.simps)

lemma bit_length_numeral: "bit_length (numeral k) = Suc (bit_length (numeral k div 2))"
  by (subst bit_length.simps) simp

lemma bit_length_product: "bit_length (512 * mantissa_0_6) = 62"
  by (simp add: mantissa_0_6_def bit_length_numeral bit_length_one bit_length_zero)

lemma floor_times_0_6_512: "floor_times_0_6 512 = 307"
  unfolding floor_times_0_6_def Let_def bit_length_product
  by (simp add: mantissa_0_6_def)

text \<open>
  Claim C2 says that for \<^verbatim>\<open>icon-maskable.png\<close>, of catalog size 512, the shrunken
  content and the padding on two opposite sides add up to 512. On the code they add up
  to 511: the content is \<open>floor (512 * 0.6) = 307\<close> pixels, the padding
  \<open>floor ((512 - 307) / 2) = 102\<close> pixels on each side, and the image written is
  511 by 511.
\<close>

theorem maskable_512_is_511:
  "floor_times_0_6 512 = 307
   \<and> (512 - floor_times_0_6 512) div 2 = 102
   \<and> output_width (addMaskablePadding (sharp_resize 512 512 (sharp src)) 512) = 511
   \<and> output_height (addMaskablePadding (sharp_resize 512 512 (sharp src)) 512) = 511
   \<and> ICON_CONFIGS ! 4 = \<lparr>filename = ''icon-maskable.png'', size = 512, format = FormatPng,
        icon_mode = Some ModeTraditional\<rparr>
   \<and> generateIcon g (ICON_CONFIGS ! 4)
      = [ToFile (path_join (outputDir (options g)) ''icon-maskable.png'') 511 511]"
  by (simp add: floor_times_0_6_512 addMaskablePadding_def output_width_def output_height_def
      sharp_extend_def sharp_resize_def sharp_def generateIcon_def ICON_CONFIGS_def Let_def)

section \<open>Framework detection and source validation: results\<close>

text \<open>Unfolding rules that let the simplifier run the path and case functions on literals.\<close>

lemmas path_eval = path_join_def path_normalize_def normalizeString_def isAbsolute_def
  path_basename_def path_extname_def strip_trailing_slashes_def Let_def

lemmas lower_eval = toLowerCase_def lower_char_def char_of_def bit_Suc_0_iff

lemma detect_configs_ex:
  "detect_configs access cwd fs = (\<exists>f \<in> set fs. access (path_join cwd f))"
  by (induction fs) auto

lemma detect_loop_find:
  "detect_loop access cwd fws =
     List.find (\<lambda>fw. \<exists>f \<in> set (configFiles fw). access (path_join cwd f)) fws"
  by (induction fws) (auto simp: detect_configs_ex)

text \<open>
  Claim C5: detection returns the first framework of the catalog, in its order, one of
  whose configuration files is accessible under the root, and none exactly when no
  configuration file of any framework is. When \<^verbatim>\<open>astro.config.mjs\<close> is there and no
  Next.js configuration file is, the framework is Astro, the static directory is
  \<^verbatim>\<open>public\<close> under the root, and there is no app router, whatever else the root
  holds (an \<^verbatim>\<open>app\<close> directory included), since Astro declares no app directory.
\<close>

theorem detect_first_match:
  "detect access cwd =
     List.find (\<lambda>fw. \<exists>f \<in> set (configFiles fw). access (path_join cwd f)) FRAMEWORKS
   \<and> (detect access cwd = None \<longleftrightarrow>
        (\<forall>fw \<in> set FRAMEWORKS. \<forall>f \<in> set (configFiles fw). \<not> access (path_join cwd f)))
   \<and> (access (path_join cwd ''astro.config.mjs'')
        \<and> \<not> access (path_join cwd ''next.config.js'')
        \<and> \<not> access (path_join cwd ''next.config.mjs'')
        \<and> \<not> access (path_join cwd ''next.config.ts'')
      \<longrightarrow> map_option name (detect access cwd) = Some ''Astro''
          \<and> getPublicDir access cwd = path_join cwd ''public''
          \<and> getAppDir access cwd = None
          \<and> \<not> hasAppRouter access cwd)"
proof -
  have find: "detect access cwd =
     List.find (\<lambda>fw. \<exists>f \<in> set (configFiles fw). access (path_join cwd f)) FRAMEWORKS"
    by (simp add: detect_def detect_loop_find)
  have none: "detect access cwd = None \<longleftrightarrow>
        (\<forall>fw \<in> set FRAMEWORKS. \<forall>f \<in> set (configFiles fw). \<not> access (path_join cwd f))"
    unfolding find by (auto simp: find_None_iff)
  have astro: "map_option name (detect access cwd) = Some ''Astro''
          \<and> getPublicDir access cwd = path_join cwd ''public''
          \<and> getAppDir access cwd = None
          \<and> \<not> hasAppRouter access cwd"
    if "access (path_join cwd ''astro.config.mjs'')"
       "\<not> access (path_join cwd ''next.config.js'')"
       "\<not> access (path_join cwd ''next.config.mjs'')"
       "\<not> access (path_join cwd ''next.config.ts'')"
  proof -
    have "detect access cwd = Some (FRAMEWORKS ! 1)"
      using that by (simp add: detect_def FRAMEWORKS_def)
    then show ?thesis
      by (simp add: getPublicDir_def getAppDir_def hasAppRouter_def FRAMEWORKS_def)
  qed
  from find none astro show ?thesis by blast
qed

theorem detect_first_match_witness:
  "detect (\<lambda>p. p = ''/proj/astro.config.mjs'' \<or> p = ''/proj/app'') ''/proj''
     = Some \<lparr>name = ''Astro'',
             configFiles = [''astro.config.mjs'', ''astro.config.js'', ''astro.config.ts''],
             publicDir = ''public'', appDir = None\<rparr>
   \<and> getPublicDir (\<lambda>p. p = ''/proj/astro.config.mjs'' \<or> p = ''/proj/app'') ''/proj''
       = ''/proj/public''
   \<and> path_join ''/proj'' ''app'' = ''/proj/app''
   \<and> \<not> hasAppRouter (\<lambda>p. p = ''/proj/astro.config.mjs'' \<or> p = ''/proj/app'') ''/proj''"
  using detect_first_match
    [of "\<lambda>p. p = ''/proj/astro.config.mjs'' \<or> p = ''/proj/app''" "''/proj''"]
  by (simp add: path_eval FRAMEWORKS_def)

text \<open>
  Claim C10: \<^verbatim>\<open>findAppIcon\<close> returns the path of \<^verbatim>\<open>app-icon.svg\<close> whenever that file is
  accessible (also when \<^verbatim>\<open>app-icon.png\<close> is), the path of \<^verbatim>\<open>app-icon.png\<close> only when
  the svg is not, and null exactly when neither is accessible.
\<close>

theorem findAppIcon_svg_first:
  "(access (path_join cwd ''app-icon.svg'')
      \<longrightarrow> findAppIcon access cwd = Some (path_join cwd ''app-icon.svg''))
   \<and> (\<not> access (path_join cwd ''app-icon.svg'') \<and> access (path_join cwd ''app-icon.png'')
      \<longrightarrow> findAppIcon access cwd = Some (path_join cwd ''app-icon.png''))
   \<and> (findAppIcon access cwd = None \<longleftrightarrow>
        \<not> access (path_join cwd ''app-icon.svg'') \<and> \<not> access (path_join cwd ''app-icon.png''))"
  by (simp add: findAppIcon_def)

theorem findAppIcon_svg_first_witness:
  "findAppIcon (\<lambda>p. p = ''/proj/app-icon.svg'' \<or> p = ''/proj/app-icon.png'') ''/proj''
     = Some ''/proj/app-icon.svg''
   \<and> findAppIcon (\<lambda>p. p = ''/proj/app-icon.png'') ''/proj'' = Some ''/proj/app-icon.png''
   \<and> findAppIcon (\<lambda>p. False) ''/proj'' = None"
  using findAppIcon_svg_first
    [of "\<lambda>p. p = ''/proj/app-icon.svg'' \<or> p = ''/proj/app-icon.png''" "''/proj''"]
    findAppIcon_svg_first [of "\<lambda>p. p = ''/proj/app-icon.png''" "''/proj''"]
    findAppIcon_svg_first [of "\<lambda>p. False" "''/proj''"]
  by (simp add: path_eval)

text \<open>
  Claim C4: \<^verbatim>\<open>validateSourceFile\<close> fails with the not-found error when the path is not
  accessible; otherwise it fails with the invalid-format error exactly when the
  lower-cased extension is none of \<^verbatim>\<open>.svg\<close>, \<^verbatim>\<open>.png\<close>, \<^verbatim>\<open>.jpg\<close>, \<^verbatim>\<open>.jpeg\<close>, and
  otherwise it succeeds without a value.
\<close>

theorem validateSourceFile_cases:
  "(\<not> access p \<longrightarrow> validateSourceFile access p = Inl (SourceFileNotFound p))
   \<and> (access p \<longrightarrow>
        ((\<exists>m. validateSourceFile access p = Inl (InvalidFileFormat m))
           \<longleftrightarrow> toLowerCase (path_extname p) \<notin> {''.svg'', ''.png'', ''.jpg'', ''.jpeg''})
        \<and> (validateSourceFile access p = Inr ()
           \<longleftrightarrow> toLowerCase (path_extname p) \<in> {''.svg'', ''.png'', ''.jpg'', ''.jpeg''}))"
  by (auto simp: validateSourceFile_def validExtensions_def Let_def)

theorem validateSourceFile_cases_witness:
  "validateSourceFile (\<lambda>p. p = ''/proj/Logo.PNG'') ''/proj/Logo.PNG'' = Inr ()
   \<and> validateSourceFile (\<lambda>p. p = ''/proj/notes.txt'') ''/proj/notes.txt''
       = Inl (InvalidFileFormat ''.svg, .png, .jpg, .jpeg'')
   \<and> validateSourceFile (\<lambda>p. False) ''/proj/logo.svg''
       = Inl (SourceFileNotFound ''/proj/logo.svg'')"
  using validateSourceFile_cases [of "\<lambda>p. p = ''/proj/Logo.PNG''" "''/proj/Logo.PNG''"]
    validateSourceFile_cases [of "\<lambda>p. p = ''/proj/notes.txt''" "''/proj/notes.txt''"]
    validateSourceFile_cases [of "\<lambda>p. False" "''/proj/logo.svg''"]
  by (simp add: path_eval lower_eval validateSourceFile_def validExtensions_def)

section \<open>The manifest: results\<close>

lemma manifest_writes_append:
  "manifest_writes (xs @ ys) = manifest_writes xs @ manifest_writes ys"
  by (induction xs rule: manifest_writes.induct) simp_all

lemma manifest_writes_generateIcon: "manifest_writes (generateIcon g config) = []"
  by (simp add: generateIcon_def Let_def)

lemma manifest_writes_icons:
  "manifest_writes (concat (map (generateIcon g) configs)) = []"
  by (induction configs) (simp_all add: manifest_writes_append manifest_writes_generateIcon)

text \<open>
  Claim C3: a run writes a manifest exactly when the resolved mode is traditional; it
  is then the one document written to \<^verbatim>\<open>site.webmanifest\<close> in the output directory.
  Its \<^verbatim>\<open>icons\<close> list has three entries, of sizes \<^verbatim>\<open>192x192\<close>, \<^verbatim>\<open>512x512\<close> and
  \<^verbatim>\<open>512x512\<close> in this order, and only the last has a \<^verbatim>\<open>purpose\<close>, which is
  \<^verbatim>\<open>maskable\<close>. In any other mode no manifest is written.
\<close>

theorem manifest_only_in_traditional:
  "manifest_writes (generate g sourceSVG) =
     (if getMode g = Traditional
      then [(path_join (outputDir (options g)) ''site.webmanifest'', manifest)] else [])
   \<and> map (json_member ''sizes'') (json_elements (json_member ''icons'' manifest))
       = [Some (JString ''192x192''), Some (JString ''512x512''), Some (JString ''512x512'')]
   \<and> map (json_member ''purpose'') (json_elements (json_member ''icons'' manifest))
       = [None, None, Some (JString ''maskable'')]"
  by (simp add: generate_def getMode_def manifest_writes_append manifest_writes_icons
      copySVGSource_def generateSafariPinnedTab_def generateManifest_def
      generateHTMLSnippet_def manifest_def Let_def)

theorem manifest_only_in_traditional_witness:
  "manifest_writes (generate (new_IconGenerator
       \<lparr>sourcePath = ''/site/icon.svg'', outputDir = ''/site/public'', color = None,
        mode = Some Traditional, projectRoot = None\<rparr>) [])
     = [(''/site/public/site.webmanifest'', manifest)]
   \<and> manifest_writes (generate (new_IconGenerator
       \<lparr>sourcePath = ''/site/icon.svg'', outputDir = ''/site/app'', color = None,
        mode = Some Nextjs, projectRoot = None\<rparr>) []) = []"
  using manifest_only_in_traditional
    [of "new_IconGenerator
       \<lparr>sourcePath = ''/site/icon.svg'', outputDir = ''/site/public'', color = None,
        mode = Some Traditional, projectRoot = None\<rparr>" "[]"]
    manifest_only_in_traditional
    [of "new_IconGenerator
       \<lparr>sourcePath = ''/site/icon.svg'', outputDir = ''/site/app'', color = None,
        mode = Some Nextjs, projectRoot = None\<rparr>" "[]"]
  by (simp add: getMode_def new_IconGenerator_def resolveMode_def path_join_def
      path_normalize_def normalizeString_def isAbsolute_def Let_def)

section \<open>HTML integration: results\<close>

lemma or_default_Some_default:
  "or_default (Some (case x of None \<Rightarrow> d | Some c \<Rightarrow> c)) d = or_default x d"
  by (simp add: or_default_def split: option.splits)

lemma resolveColor_eq: "resolveColor args = or_default (tagColor args) ''#5bbad5''"
  by (simp add: resolveColor_def or_default_Some_default)

lemma backslash_not_in_lead: "bsl \<notin> set iconTags_lead"
  by (simp add: iconTags_lead_def)

lemma lead_has_signature: "sublist ''apple-touch-icon'' iconTags_lead"
  by (simp add: iconTags_lead_def sublist_code prefix_code)

lemma split_str_not_Nil: "sep \<noteq> [] \<Longrightarrow> split_str sep s \<noteq> []"
  by (subst split_str.simps) (auto split: list.splits)

lemma split_str_no_match:
  "sep \<noteq> [] \<Longrightarrow> \<not> sublist sep s \<Longrightarrow> split_str sep s = [s]"
proof (induction s)
  case Nil
  then show ?case by (subst split_str.simps) simp
next
  case (Cons c cs)
  from Cons.prems have np: "\<not> prefix sep (c # cs)" and ns: "\<not> sublist sep cs"
    by (auto simp: sublist_Cons_right)
  from Cons.IH [OF Cons.prems(1) ns] np Cons.prems(1) show ?case
    by (subst split_str.simps) simp
qed

lemma sublist_skip_free_prefix:
  "a \<notin> set xs \<Longrightarrow> sublist (a # t) (xs @ r) \<longleftrightarrow> sublist (a # t) r"
  by (induction xs) (auto simp: sublist_Cons_right)

lemma sublist_two_append:
  assumes "\<not> sublist [a, b] xs" "a \<notin> set ys" "ys = [] \<or> hd ys \<noteq> b"
  shows "\<not> sublist [a, b] (xs @ ys)"
  using assms
proof (induction xs)
  case Nil
  then show ?case
    by (cases ys) (auto simp: sublist_Cons_right dest: set_mono_sublist)
next
  case (Cons x xs)
  from Cons.prems(1) have np: "\<not> prefix [a, b] (x # xs)" and ns: "\<not> sublist [a, b] xs"
    by (auto simp: sublist_Cons_right)
  have "\<not> prefix [a, b] (x # xs @ ys)"
  proof
    assume p: "prefix [a, b] (x # xs @ ys)"
    show False
    proof (cases xs)
      case Nil
      with p Cons.prems(3) show False by (cases ys) auto
    next
      case (Cons z zs)
      with p np show False by auto
    qed
  qed
  with Cons.IH [OF ns Cons.prems(2) Cons.prems(3)] show ?case
    by (simp add: sublist_Cons_right)
qed

lemma iconTags_no_backslash_n:
  assumes "\<not> sublist backslash_n col"
  shows "\<not> sublist backslash_n (iconTags col)"
proof -
  have "\<not> sublist [bsl, CHR ''n''] (col @ [dq, CHR ''>''])"
    using assms by (intro sublist_two_append) (simp_all add: backslash_n_def)
  then show ?thesis
    using sublist_skip_free_prefix [OF backslash_not_in_lead, of "[CHR ''n'']" "col @ [dq, CHR ''>'']"]
    by (simp add: iconTags_def backslash_n_def)
qed

lemma head_insertion_plain:
  assumes "\<not> sublist backslash_n col"
  shows "head_insertion col = backslash_n @ ''  '' @ iconTags col @ backslash_n"
  using split_str_no_match [OF _ iconTags_no_backslash_n [OF assms]]
  by (simp add: head_insertion_def backslash_n_def)


lemma split_str_free_prefix:
  "bsl \<notin> set xs \<Longrightarrow>
   split_str backslash_n (xs @ r) =
     (xs @ hd (split_str backslash_n r)) # tl (split_str backslash_n r)"
proof (induction xs)
  case Nil
  have "split_str backslash_n r \<noteq> []"
    by (rule split_str_not_Nil) (simp add: backslash_n_def)
  then show ?case by simp
next
  case (Cons x xs)
  then have IH: "split_str backslash_n (xs @ r) =
     (xs @ hd (split_str backslash_n r)) # tl (split_str backslash_n r)"
    and x: "x \<noteq> bsl" by auto
  from x have np: "\<not> prefix backslash_n (x # xs @ r)"
    by (simp add: backslash_n_def)
  show ?case
    by (subst split_str.simps) (use np IH in \<open>simp add: backslash_n_def\<close>)
qed

lemma join_with_lead:
  "ps \<noteq> [] \<Longrightarrow> join_with sep ((xs @ hd ps) # tl ps) = xs @ join_with sep ps"
  by (cases ps; cases "tl ps") auto

lemma head_insertion_general:
  "head_insertion col =
     backslash_n @ ''  '' @ iconTags_lead
     @ join_with (backslash_n @ ''  '') (split_str backslash_n (col @ [dq, CHR ''>'']))
     @ backslash_n"
proof -
  let ?r = "col @ [dq, CHR ''>'']"
  have ne: "split_str backslash_n ?r \<noteq> []"
    by (rule split_str_not_Nil) (simp add: backslash_n_def)
  have "split_str backslash_n (iconTags col) =
      (iconTags_lead @ hd (split_str backslash_n ?r)) # tl (split_str backslash_n ?r)"
    unfolding iconTags_def using backslash_not_in_lead by (rule split_str_free_prefix)
  then have "join_with (backslash_n @ ''  '') (split_str backslash_n (iconTags col)) =
      iconTags_lead @ join_with (backslash_n @ ''  '') (split_str backslash_n ?r)"
    using join_with_lead [OF ne] by (simp only:)
  then show ?thesis
    unfolding head_insertion_def by (simp only: append_assoc)
qed

lemma sublist_mid: "sublist xs ys \<Longrightarrow> sublist xs (as @ ys @ bs)"
proof -
  assume "sublist xs ys"
  then obtain ps ss where "ys = ps @ xs @ ss"
    by (auto simp: sublist_def)
  then have "as @ ys @ bs = (as @ ps) @ xs @ (ss @ bs)"
    by simp
  then show ?thesis
    by (simp only: sublist_appendI)
qed

lemma head_insertion_has_signature: "sublist ''apple-touch-icon'' (head_insertion col)"
proof -
  have "sublist ''apple-touch-icon''
      ((backslash_n @ ''  '') @ iconTags_lead
       @ (join_with (backslash_n @ ''  '') (split_str backslash_n (col @ [dq, CHR ''>'']))
          @ backslash_n))"
    using lead_has_signature by (rule sublist_mid)
  then show ?thesis
    by (simp only: head_insertion_general append_assoc)
qed

lemma splice_changes: "h \<noteq> [] \<Longrightarrow> take k t @ h @ drop k t \<noteq> t"
proof
  assume h: "h \<noteq> []" and eq: "take k t @ h @ drop k t = t"
  have "length (take k t @ h @ drop k t) = length (take k t @ drop k t) + length h"
    by (simp only: length_append add_ac)
  then have "length (take k t @ h @ drop k t) = length t + length h"
    by (simp only: append_take_drop_id)
  moreover from eq have "length (take k t @ h @ drop k t) = length t"
    by (rule arg_cong)
  ultimately have "length h = 0"
    by linarith
  with h show False by simp
qed

lemma head_insertion_not_Nil: "head_insertion col \<noteq> []"
  by (simp add: head_insertion_def backslash_n_def)

lemma fs_access_writeFile:
  "fs f \<noteq> None \<Longrightarrow> fs_access (fs_writeFile fs f t) p = fs_access fs p"
  by (simp add: fs_access_def fs_writeFile_def)

lemma findHTMLEntryPoint_loop_writeFile:
  "fs f \<noteq> None \<Longrightarrow>
   findHTMLEntryPoint_loop (fs_writeFile fs f t) proj cands = findHTMLEntryPoint_loop fs proj cands"
  by (induction cands) (simp_all add: fs_access_writeFile)

lemma findHTMLEntryPoint_writeFile:
  "fs f \<noteq> None \<Longrightarrow> findHTMLEntryPoint (fs_writeFile fs f t) proj = findHTMLEntryPoint fs proj"
  unfolding findHTMLEntryPoint_def by (rule findHTMLEntryPoint_loop_writeFile)

lemma resolveHtmlFile_writeFile:
  "fs f \<noteq> None \<Longrightarrow> resolveHtmlFile pcwd args (fs_writeFile fs f t) = resolveHtmlFile pcwd args fs"
  by (simp add: resolveHtmlFile_def findHTMLEntryPoint_writeFile Let_def split: option.splits)

lemma head_search_sound:
  "head_search t = Some (i, n) \<Longrightarrow> head_match (drop i t) = Some n"
proof (induction t arbitrary: i)
  case Nil
  then show ?case by simp
next
  case (Cons c cs)
  then show ?case
    by (cases "head_match (c # cs)") (auto split: option.splits)
qed

lemma handle_already:
  assumes "fs (resolveHtmlFile pcwd args fs) = Some (File t)"
    and "sublist ''apple-touch-icon'' t \<or> sublist ''site.webmanifest'' t"
  shows "handleIntegrateIconsHTML pcwd args fs
           = Inr (TagsAlreadyExist (resolveHtmlFile pcwd args fs), fs)"
  using assms
  by (simp add: handleIntegrateIconsHTML_def fs_access_def fs_readFile_def includes_str_def Let_def)

lemma handle_added:
  assumes "fs (resolveHtmlFile pcwd args fs) = Some (File t)"
    and "\<not> sublist ''apple-touch-icon'' t" "\<not> sublist ''site.webmanifest'' t"
    and "head_search t = Some (i, n)"
  shows "handleIntegrateIconsHTML pcwd args fs
           = Inr (TagsAdded (resolveHtmlFile pcwd args fs),
                  fs (resolveHtmlFile pcwd args fs \<mapsto>
                        File (take (i + n) t @ head_insertion (resolveColor args) @ drop (i + n) t)))"
  using assms
  by (simp add: handleIntegrateIconsHTML_def fs_access_def fs_readFile_def includes_str_def
      fs_writeFile_def Let_def)

text \<open>
  Claim C6: the integrator is idempotent. On a file whose text already contains
  \<^verbatim>\<open>apple-touch-icon\<close> or \<^verbatim>\<open>site.webmanifest\<close> it writes nothing and answers that the
  tags already exist, the file system being unchanged. On a file without them that has
  a head tag, the first call rewrites the file to a different text and the second call,
  on the resulting file system, answers that the tags already exist and changes
  nothing.
\<close>

theorem integrate_twice:
  assumes "fs (resolveHtmlFile pcwd args fs) = Some (File t)"
  shows "(sublist ''apple-touch-icon'' t \<or> sublist ''site.webmanifest'' t \<longrightarrow>
            handleIntegrateIconsHTML pcwd args fs
              = Inr (TagsAlreadyExist (resolveHtmlFile pcwd args fs), fs))
       \<and> (\<not> sublist ''apple-touch-icon'' t \<and> \<not> sublist ''site.webmanifest'' t
            \<and> head_search t \<noteq> None \<longrightarrow>
            (\<exists>t'. t' \<noteq> t
               \<and> handleIntegrateIconsHTML pcwd args fs
                   = Inr (TagsAdded (resolveHtmlFile pcwd args fs),
                          fs (resolveHtmlFile pcwd args fs \<mapsto> File t'))
               \<and> handleIntegrateIconsHTML pcwd args (fs (resolveHtmlFile pcwd args fs \<mapsto> File t'))
                   = Inr (TagsAlreadyExist (resolveHtmlFile pcwd args fs),
                          fs (resolveHtmlFile pcwd args fs \<mapsto> File t'))))"
proof (intro conjI impI)
  assume "sublist ''apple-touch-icon'' t \<or> sublist ''site.webmanifest'' t"
  with assms show "handleIntegrateIconsHTML pcwd args fs
              = Inr (TagsAlreadyExist (resolveHtmlFile pcwd args fs), fs)"
    by (rule handle_already)
next
  assume a: "\<not> sublist ''apple-touch-icon'' t \<and> \<not> sublist ''site.webmanifest'' t
            \<and> head_search t \<noteq> None"
  then obtain i n where hs: "head_search t = Some (i, n)" by auto
  let ?f = "resolveHtmlFile pcwd args fs"
  let ?t' = "take (i + n) t @ head_insertion (resolveColor args) @ drop (i + n) t"
  let ?fs' = "fs (?f \<mapsto> File ?t')"
  have first: "handleIntegrateIconsHTML pcwd args fs = Inr (TagsAdded ?f, ?fs')"
    using assms a hs by (intro handle_added) simp_all
  have changed: "?t' \<noteq> t"
    using head_insertion_not_Nil by (rule splice_changes)
  have same: "resolveHtmlFile pcwd args ?fs' = ?f"
    using resolveHtmlFile_writeFile [of fs ?f pcwd args ?t'] assms
    by (simp add: fs_writeFile_def)
  have sig: "sublist ''apple-touch-icon'' ?t'"
    using head_insertion_has_signature [of "resolveColor args"] by (rule sublist_mid)
  have second: "handleIntegrateIconsHTML pcwd args ?fs' = Inr (TagsAlreadyExist ?f, ?fs')"
    using handle_already [of ?fs' pcwd args ?t'] same sig by simp
  from changed first second
  show "\<exists>t'. t' \<noteq> t
               \<and> handleIntegrateIconsHTML pcwd args fs
                   = Inr (TagsAdded ?f, fs (?f \<mapsto> File t'))
               \<and> handleIntegrateIconsHTML pcwd args (fs (?f \<mapsto> File t'))
                   = Inr (TagsAlreadyExist ?f, fs (?f \<mapsto> File t'))"
    by blast
qed


theorem integrate_twice_witness:
  "(\<exists>t'. t' \<noteq> ''<html><head></head></html>''
      \<and> handleIntegrateIconsHTML ''/home/u''
            \<lparr>projectPath = ''site'', htmlPath = None, tagColor = None\<rparr>
            [''/home/u/site/index.html'' \<mapsto> File ''<html><head></head></html>'']
          = Inr (TagsAdded ''/home/u/site/index.html'',
                 [''/home/u/site/index.html'' \<mapsto> File t'])
      \<and> handleIntegrateIconsHTML ''/home/u''
            \<lparr>projectPath = ''site'', htmlPath = None, tagColor = None\<rparr>
            [''/home/u/site/index.html'' \<mapsto> File t']
          = Inr (TagsAlreadyExist ''/home/u/site/index.html'',
                 [''/home/u/site/index.html'' \<mapsto> File t']))"
proof -
  let ?args = "\<lparr>projectPath = ''site'', htmlPath = None, tagColor = None\<rparr>"
  let ?t = "''<html><head></head></html>''"
  let ?fs = "[''/home/u/site/index.html'' \<mapsto> File ?t]"
  have f: "resolveHtmlFile ''/home/u'' ?args ?fs = ''/home/u/site/index.html''"
    by (simp add: resolveHtmlFile_def findHTMLEntryPoint_def path_eval path_resolve_def
        fs_access_def)
  have hyp: "?fs (resolveHtmlFile ''/home/u'' ?args ?fs) = Some (File ?t)"
    by (simp add: f)
  have ns: "\<not> sublist ''apple-touch-icon'' ?t \<and> \<not> sublist ''site.webmanifest'' ?t"
    by (simp add: sublist_code prefix_code)
  have hs: "head_search ?t \<noteq> None"
    by (simp add: head_match_def lower_eval)
  from integrate_twice [of ?fs "''/home/u''" ?args ?t, OF hyp] ns hs show ?thesis
    by (simp add: f)
qed

text \<open>
  Claim C9 says that the text spliced in after the head tag is backslash-n and two
  spaces, the icon-tag block unchanged, and backslash-n, because the delimiter
  backslash-n does not occur in the block. The block holds the colour, which is any
  string: with the colour backslash-n itself, the split and join add two spaces inside
  the colour attribute, and the text written is not the one the claim gives.
\<close>

lemma split_backslash_colour:
  "split_str [bsl, CHR ''n''] [bsl, CHR ''n'', dq, CHR ''>''] = [[], [dq, CHR ''>'']]"
  by (simp add: split_str.simps)

theorem head_splice_backslash_colour:
  "handleIntegrateIconsHTML ''/home/u''
      \<lparr>projectPath = ''site'', htmlPath = None, tagColor = Some [bsl, CHR ''n'']\<rparr>
      [''/home/u/site/index.html'' \<mapsto> File ''<html><head></head></html>'']
    = Inr (TagsAdded ''/home/u/site/index.html'',
           [''/home/u/site/index.html'' \<mapsto> File
              (''<html><head>'' @ [bsl, CHR ''n''] @ ''  ''
               @ iconTags_lead @ [bsl, CHR ''n''] @ ''  '' @ [dq, CHR ''>'']
               @ [bsl, CHR ''n''] @ ''</head></html>'')])
   \<and> ''<html><head>'' @ [bsl, CHR ''n''] @ ''  ''
       @ iconTags_lead @ [bsl, CHR ''n''] @ ''  '' @ [dq, CHR ''>'']
       @ [bsl, CHR ''n''] @ ''</head></html>''
     \<noteq> ''<html><head>'' @ [bsl, CHR ''n''] @ ''  ''
       @ iconTags [bsl, CHR ''n'']
       @ [bsl, CHR ''n''] @ ''</head></html>''"
proof -
  let ?args = "\<lparr>projectPath = ''site'', htmlPath = None, tagColor = Some [bsl, CHR ''n'']\<rparr>"
  let ?t = "''<html><head></head></html>''"
  let ?fs = "[''/home/u/site/index.html'' \<mapsto> File ?t]"
  have f: "resolveHtmlFile ''/home/u'' ?args ?fs = ''/home/u/site/index.html''"
    by (simp add: resolveHtmlFile_def findHTMLEntryPoint_def path_eval path_resolve_def
        fs_access_def)
  have hyp: "?fs (resolveHtmlFile ''/home/u'' ?args ?fs) = Some (File ?t)"
    by (simp add: f)
  have ns: "\<not> sublist ''apple-touch-icon'' ?t" "\<not> sublist ''site.webmanifest'' ?t"
    by (simp_all add: sublist_code prefix_code)
  have hs: "head_search ?t = Some (6, 6)"
    by (simp add: head_match_def lower_eval)
  have col: "resolveColor ?args = [bsl, CHR ''n'']"
    by (simp add: resolveColor_def or_default_def)
  have ins: "head_insertion [bsl, CHR ''n''] =
      [bsl, CHR ''n''] @ ''  '' @ iconTags_lead @ [bsl, CHR ''n''] @ ''  '' @ [dq, CHR ''>'']
      @ [bsl, CHR ''n'']"
    by (simp add: head_insertion_general backslash_n_def split_backslash_colour)
  have run: "handleIntegrateIconsHTML ''/home/u'' ?args ?fs
    = Inr (TagsAdded ''/home/u/site/index.html'',
           [''/home/u/site/index.html'' \<mapsto> File
              (''<html><head>'' @ [bsl, CHR ''n''] @ ''  ''
               @ iconTags_lead @ [bsl, CHR ''n''] @ ''  '' @ [dq, CHR ''>'']
               @ [bsl, CHR ''n''] @ ''</head></html>'')])"
    using handle_added [of ?fs "''/home/u''" ?args ?t 6 6, OF hyp ns hs]
    by (simp add: f col ins)
  have differ: "''<html><head>'' @ [bsl, CHR ''n''] @ ''  ''
       @ iconTags_lead @ [bsl, CHR ''n''] @ ''  '' @ [dq, CHR ''>'']
       @ [bsl, CHR ''n''] @ ''</head></html>''
     \<noteq> ''<html><head>'' @ [bsl, CHR ''n''] @ ''  ''
       @ iconTags [bsl, CHR ''n'']
       @ [bsl, CHR ''n''] @ ''</head></html>''"
    by (simp add: iconTags_def)
  from run differ show ?thesis by (rule conjI)
qed

text \<open>
  Claim C9, amended: when the integrator splices into a file that has a head tag (and
  none of the two signatures), the text placed right after the tag is backslash-n and
  two spaces, then the fixed part of the block, then the colour and the closing of the
  last tag split at each backslash-n and joined by backslash-n and two spaces, then
  backslash-n; no line break is in the text added around the block. When the colour
  does not contain backslash-n, this is the icon-tag block unchanged between
  backslash-n with two spaces and backslash-n: the real line breaks of the block are
  kept and no line gets indentation.
\<close>

theorem head_splice_text:
  assumes "fs (resolveHtmlFile pcwd args fs) = Some (File t)"
    and "\<not> sublist ''apple-touch-icon'' t" and "\<not> sublist ''site.webmanifest'' t"
    and "head_search t = Some (i, n)"
  shows "handleIntegrateIconsHTML pcwd args fs
           = Inr (TagsAdded (resolveHtmlFile pcwd args fs),
                  fs (resolveHtmlFile pcwd args fs \<mapsto> File
                    (take (i + n) t
                     @ [bsl, CHR ''n'', CHR '' '', CHR '' '']
                     @ iconTags_lead
                     @ join_with [bsl, CHR ''n'', CHR '' '', CHR '' '']
                         (split_str [bsl, CHR ''n'']
                            (or_default (tagColor args) ''#5bbad5'' @ [dq, CHR ''>'']))
                     @ [bsl, CHR ''n'']
                     @ drop (i + n) t)))
       \<and> head_match (drop i t) = Some n
       \<and> nl \<notin> set [bsl, CHR ''n'', CHR '' '', CHR '' '']
       \<and> (\<not> sublist [bsl, CHR ''n''] (or_default (tagColor args) ''#5bbad5'') \<longrightarrow>
            handleIntegrateIconsHTML pcwd args fs
              = Inr (TagsAdded (resolveHtmlFile pcwd args fs),
                     fs (resolveHtmlFile pcwd args fs \<mapsto> File
                       (take (i + n) t
                        @ [bsl, CHR ''n'', CHR '' '', CHR '' '']
                        @ iconTags (or_default (tagColor args) ''#5bbad5'')
                        @ [bsl, CHR ''n'']
                        @ drop (i + n) t))))"
proof (intro conjI impI)
  note run = handle_added [of fs pcwd args t i n, OF assms]
  show "handleIntegrateIconsHTML pcwd args fs
           = Inr (TagsAdded (resolveHtmlFile pcwd args fs),
                  fs (resolveHtmlFile pcwd args fs \<mapsto> File
                    (take (i + n) t
                     @ [bsl, CHR ''n'', CHR '' '', CHR '' '']
                     @ iconTags_lead
                     @ join_with [bsl, CHR ''n'', CHR '' '', CHR '' '']
                         (split_str [bsl, CHR ''n'']
                            (or_default (tagColor args) ''#5bbad5'' @ [dq, CHR ''>'']))
                     @ [bsl, CHR ''n'']
                     @ drop (i + n) t)))"
    unfolding run resolveColor_eq head_insertion_general by (simp add: backslash_n_def)
  show "head_match (drop i t) = Some n"
    using assms(4) by (rule head_search_sound)
  show "nl \<notin> set [bsl, CHR ''n'', CHR '' '', CHR '' '']"
    by simp
  assume "\<not> sublist [bsl, CHR ''n''] (or_default (tagColor args) ''#5bbad5'')"
  then have "\<not> sublist backslash_n (resolveColor args)"
    by (simp add: backslash_n_def resolveColor_eq)
  then have "head_insertion (resolveColor args)
      = backslash_n @ ''  '' @ iconTags (resolveColor args) @ backslash_n"
    by (rule head_insertion_plain)
  then show "handleIntegrateIconsHTML pcwd args fs
              = Inr (TagsAdded (resolveHtmlFile pcwd args fs),
                     fs (resolveHtmlFile pcwd args fs \<mapsto> File
                       (take (i + n) t
                        @ [bsl, CHR ''n'', CHR '' '', CHR '' '']
                        @ iconTags (or_default (tagColor args) ''#5bbad5'')
                        @ [bsl, CHR ''n'']
                        @ drop (i + n) t)))"
    unfolding run by (simp add: backslash_n_def resolveColor_eq)
qed


theorem head_splice_text_witness:
  "handleIntegrateIconsHTML ''/home/u''
      \<lparr>projectPath = ''site'', htmlPath = None, tagColor = None\<rparr>
      [''/home/u/site/index.html'' \<mapsto> File ''<html><head></head></html>'']
    = Inr (TagsAdded ''/home/u/site/index.html'',
           [''/home/u/site/index.html'' \<mapsto> File
              (''<html><head>'' @ [bsl, CHR ''n'', CHR '' '', CHR '' '']
               @ iconTags ''#5bbad5'' @ [bsl, CHR ''n''] @ ''</head></html>'')])"
proof -
  let ?args = "\<lparr>projectPath = ''site'', htmlPath = None, tagColor = None\<rparr>"
  let ?t = "''<html><head></head></html>''"
  let ?fs = "[''/home/u/site/index.html'' \<mapsto> File ?t]"
  have f: "resolveHtmlFile ''/home/u'' ?args ?fs = ''/home/u/site/index.html''"
    by (simp add: resolveHtmlFile_def findHTMLEntryPoint_def path_eval path_resolve_def
        fs_access_def)
  have hyp: "?fs (resolveHtmlFile ''/home/u'' ?args ?fs) = Some (File ?t)"
    by (simp add: f)
  have ns: "\<not> sublist ''apple-touch-icon'' ?t" "\<not> sublist ''site.webmanifest'' ?t"
    by (simp_all add: sublist_code prefix_code)
  have hs: "head_search ?t = Some (6, 6)"
    by (simp add: head_match_def lower_eval)
  have nb: "\<not> sublist [bsl, CHR ''n''] (or_default (tagColor ?args) ''#5bbad5'')"
    by (simp add: or_default_def sublist_code prefix_code)
  from head_splice_text [of ?fs "''/home/u''" ?args ?t 6 6, OF hyp ns hs] nb
  have "handleIntegrateIconsHTML ''/home/u'' ?args ?fs
      = Inr (TagsAdded (resolveHtmlFile ''/home/u'' ?args ?fs),
             ?fs (resolveHtmlFile ''/home/u'' ?args ?fs \<mapsto> File
               (take (6 + 6) ?t
                @ [bsl, CHR ''n'', CHR '' '', CHR '' '']
                @ iconTags (or_default (tagColor ?args) ''#5bbad5'')
                @ [bsl, CHR ''n'']
                @ drop (6 + 6) ?t)))"
    by blast
  then show ?thesis
    by (simp add: f or_default_def)
qed

section \<open>The monochrome pinned-tab variant: results\<close>

lemma getSubstitution_plain:
  "CHR ''$'' \<notin> set rep \<Longrightarrow> getSubstitution m p a rep = rep"
  by (induction m p a rep rule: getSubstitution.induct) auto

lemma match_attr_positive: "match_attr nm s = Some n \<Longrightarrow> 0 < n"
  by (auto simp: match_attr_def Let_def split: if_splits)

lemma match_attr_le: "match_attr nm s = Some n \<Longrightarrow> n \<le> length s"
  by (auto simp: match_attr_def Let_def prefix_def split: if_splits)

lemma replace_attr_Nil: "replace_attr nm rep pre [] = []"
  by (subst replace_attr.simps) simp

lemma replace_attr_no_match:
  "match_attr nm (c # cs) = None \<Longrightarrow>
   replace_attr nm rep pre (c # cs) = c # replace_attr nm rep (pre @ [c]) cs"
  by (subst replace_attr.simps) simp

lemma replace_attr_match:
  "match_attr nm s = Some n \<Longrightarrow>
   replace_attr nm rep pre s =
     getSubstitution (take n s) pre (drop n s) rep
     @ replace_attr nm rep (pre @ take n s) (drop n s)"
  by (subst replace_attr.simps) (auto simp: match_attr_def split: list.splits)

lemma match_attr_None:
  "\<not> prefix (nm @ [CHR ''='', dq]) s \<Longrightarrow> match_attr nm s = None"
  by (simp add: match_attr_def)

lemma replace_attr_identity:
  "\<not> sublist (nm @ [CHR ''='', dq]) s \<Longrightarrow> replace_attr nm rep pre s = s"
proof (induction s arbitrary: pre)
  case Nil
  show ?case by (rule replace_attr_Nil)
next
  case (Cons c cs)
  from Cons.prems have np: "\<not> prefix (nm @ [CHR ''='', dq]) (c # cs)"
    and ns: "\<not> sublist (nm @ [CHR ''='', dq]) cs"
    by (auto simp: sublist_Cons_right)
  from np have "match_attr nm (c # cs) = None" by (rule match_attr_None)
  then have "replace_attr nm rep pre (c # cs) = c # replace_attr nm rep (pre @ [c]) cs"
    by (rule replace_attr_no_match)
  with Cons.IH [OF ns] show ?case by simp
qed

lemma replace_attr_skip:
  "\<not> sublist (nm @ [CHR ''='', dq]) (u @ nm @ [CHR ''=''])
   \<Longrightarrow> replace_attr nm rep pre (u @ nm @ [CHR ''='', dq] @ r)
       = u @ replace_attr nm rep (pre @ u) (nm @ [CHR ''='', dq] @ r)"
proof (induction u arbitrary: pre)
  case Nil
  show ?case by simp
next
  case (Cons x u)
  let ?lit = "nm @ [CHR ''='', dq]"
  from Cons.prems have np: "\<not> prefix ?lit (x # u @ nm @ [CHR ''=''])"
    and ns: "\<not> sublist ?lit (u @ nm @ [CHR ''=''])"
    by (auto simp: sublist_Cons_right)
  have "\<not> prefix ?lit (x # u @ nm @ [CHR ''='', dq] @ r)"
  proof
    assume p: "prefix ?lit (x # u @ nm @ [CHR ''='', dq] @ r)"
    have q: "prefix (x # u @ nm @ [CHR ''='']) (x # u @ nm @ [CHR ''='', dq] @ r)"
      by simp
    have "length ?lit \<le> length (x # u @ nm @ [CHR ''=''])"
      by simp
    with p q have "prefix ?lit (x # u @ nm @ [CHR ''=''])"
      by (rule prefix_length_prefix)
    with np show False ..
  qed
  then have "match_attr nm (x # u @ nm @ [CHR ''='', dq] @ r) = None"
    by (rule match_attr_None)
  then have "replace_attr nm rep pre (x # u @ nm @ [CHR ''='', dq] @ r)
      = x # replace_attr nm rep (pre @ [x]) (u @ nm @ [CHR ''='', dq] @ r)"
    by (rule replace_attr_no_match)
  with Cons.IH [OF ns, of "pre @ [x]"] show ?case by simp
qed

lemma takeWhile_until:
  "a \<notin> set v \<Longrightarrow> takeWhile (\<lambda>c. c \<noteq> a) (v @ a # w) = v"
  by (induction v) auto

lemma match_attr_here:
  assumes "dq \<notin> set v"
  shows "match_attr nm ((nm @ [CHR ''='', dq] @ v @ [dq]) @ w)
           = Some (length (nm @ [CHR ''='', dq] @ v @ [dq]))"
  using takeWhile_until [OF assms, of w]
  by (simp add: match_attr_def Let_def)

lemma replace_attr_here:
  assumes "dq \<notin> set v"
  shows "replace_attr nm rep pre (nm @ [CHR ''='', dq] @ v @ dq # w)
     = getSubstitution (nm @ [CHR ''='', dq] @ v @ [dq]) pre w rep
       @ replace_attr nm rep (pre @ nm @ [CHR ''='', dq] @ v @ [dq]) w"
proof -
  let ?m = "nm @ [CHR ''='', dq] @ v @ [dq]"
  have "replace_attr nm rep pre (?m @ w)
     = getSubstitution (take (length ?m) (?m @ w)) pre (drop (length ?m) (?m @ w)) rep
       @ replace_attr nm rep (pre @ take (length ?m) (?m @ w)) (drop (length ?m) (?m @ w))"
    using match_attr_here [OF assms] by (rule replace_attr_match)
  then have "replace_attr nm rep pre (?m @ w)
     = getSubstitution ?m pre w rep @ replace_attr nm rep (pre @ ?m) w"
    by (simp only: append_eq_conv_conj take_all drop_all append_take_drop_id
        take_append drop_append) simp
  then show ?thesis by simp
qed

lemma replace_attr_context:
  "CHR ''$'' \<notin> set rep \<Longrightarrow> replace_attr nm rep pre s = replace_attr nm rep pre' s"
proof (induction s arbitrary: pre pre' rule: length_induct)
  case (1 s)
  show ?case
  proof (cases s)
    case Nil
    then show ?thesis by (simp add: replace_attr_Nil)
  next
    case (Cons c cs)
    show ?thesis
    proof (cases "match_attr nm s")
      case None
      with Cons have "replace_attr nm rep pre s = c # replace_attr nm rep (pre @ [c]) cs"
        and "replace_attr nm rep pre' s = c # replace_attr nm rep (pre' @ [c]) cs"
        by (simp_all add: replace_attr_no_match)
      moreover have "replace_attr nm rep (pre @ [c]) cs = replace_attr nm rep (pre' @ [c]) cs"
        using 1 Cons by simp
      ultimately show ?thesis by simp
    next
      case (Some n)
      then have "0 < n" by (rule match_attr_positive)
      with Cons have shorter: "length (drop n s) < length s" by simp
      have "replace_attr nm rep (pre @ take n s) (drop n s)
          = replace_attr nm rep (pre' @ take n s) (drop n s)"
        using 1 shorter by blast
      then show ?thesis
        using Some 1(2) by (simp add: replace_attr_match getSubstitution_plain)
    qed
  qed
qed


text \<open>Unfolding rules that run the two passes on a literal source.\<close>

lemmas replace_eval = monochromeSVG_def replace_attr_values_def replace_attr.simps
  match_attr_def Let_def

lemma example_default_colour:
  \<open>monochromeSVG ''#000000'' ''<path fill="#112233" stroke="#445566"/>''
     = ''<path fill="#000000" stroke="#000000"/>''\<close>
  by (simp add: replace_eval)

text \<open>
  Claim C7 says that the pinned-tab file is the source with every \<^verbatim>\<open>fill\<close> and
  \<^verbatim>\<open>stroke\<close> value replaced by the colour, for every source and colour, and that a
  source containing \<^verbatim>\<open>fill="#112233"\<close> and \<^verbatim>\<open>stroke="#445566"\<close> leaves no original
  colour in the output. Two runs refute it. With the default colour, a source that also
  has \<^verbatim>\<open>stop-color="#112233"\<close> keeps that occurrence of the original colour. With
  the colour \<^verbatim>\<open>$&\<close>, which the replacement text expands to the matched attribute,
  both values keep their original colours.
\<close>

theorem pinned_tab_keeps_other_colours:
  \<open>generateSafariPinnedTab
      (new_IconGenerator
        \<lparr>sourcePath = ''/site/icon.svg'', outputDir = ''/site/public'', color = None,
         mode = Some Traditional, projectRoot = None\<rparr>)
      ''<svg><stop stop-color="#112233"/><path fill="#112233" stroke="#445566"/></svg>''
    = [WriteFile ''/site/public/safari-pinned-tab.svg''
        (Text ''<svg><stop stop-color="#112233"/><path fill="#000000" stroke="#000000"/></svg>'')]
   \<and> sublist ''fill="#112233"''
        ''<svg><stop stop-color="#112233"/><path fill="#112233" stroke="#445566"/></svg>''
   \<and> sublist ''stroke="#445566"''
        ''<svg><stop stop-color="#112233"/><path fill="#112233" stroke="#445566"/></svg>''
   \<and> sublist ''#112233''
        ''<svg><stop stop-color="#112233"/><path fill="#000000" stroke="#000000"/></svg>''
   \<and> generateSafariPinnedTab
      (new_IconGenerator
        \<lparr>sourcePath = ''/site/icon.svg'', outputDir = ''/site/public'', color = Some ''$&'',
         mode = Some Traditional, projectRoot = None\<rparr>)
      ''<path fill="#112233" stroke="#445566"/>''
    = [WriteFile ''/site/public/safari-pinned-tab.svg''
        (Text ''<path fill="fill="#112233"" stroke="stroke="#445566""/>'')]\<close>
  by (simp add: generateSafariPinnedTab_def new_IconGenerator_def or_default_def path_eval
      replace_eval sublist_code prefix_code)


lemma replace_attr_values_identity:
  "\<not> sublist (nm @ [CHR ''='', dq]) s \<Longrightarrow> replace_attr_values nm col s = s"
  unfolding replace_attr_values_def by (rule replace_attr_identity)

lemma replace_attr_values_step:
  assumes "CHR ''$'' \<notin> set nm" and "CHR ''$'' \<notin> set col" and "dq \<notin> set v"
    and "\<not> sublist (nm @ [CHR ''='', dq]) (u @ nm @ [CHR ''=''])"
  shows "replace_attr_values nm col (u @ nm @ [CHR ''='', dq] @ v @ [dq] @ w)
     = u @ nm @ [CHR ''='', dq] @ col @ [dq] @ replace_attr_values nm col w"
proof -
  let ?rep = "nm @ [CHR ''='', dq] @ col @ [dq]"
  have plain: "CHR ''$'' \<notin> set ?rep"
    using assms(1,2) by simp
  have "replace_attr nm ?rep [] (u @ nm @ [CHR ''='', dq] @ v @ dq # w)
      = u @ replace_attr nm ?rep ([] @ u) (nm @ [CHR ''='', dq] @ v @ dq # w)"
    using assms(4) by (rule replace_attr_skip)
  also have "replace_attr nm ?rep ([] @ u) (nm @ [CHR ''='', dq] @ v @ dq # w)
      = getSubstitution (nm @ [CHR ''='', dq] @ v @ [dq]) ([] @ u) w ?rep
        @ replace_attr nm ?rep (([] @ u) @ nm @ [CHR ''='', dq] @ v @ [dq]) w"
    using assms(3) by (rule replace_attr_here)
  also have "getSubstitution (nm @ [CHR ''='', dq] @ v @ [dq]) ([] @ u) w ?rep = ?rep"
    using plain by (rule getSubstitution_plain)
  also have "replace_attr nm ?rep (([] @ u) @ nm @ [CHR ''='', dq] @ v @ [dq]) w
      = replace_attr nm ?rep [] w"
    using plain by (rule replace_attr_context)
  finally show ?thesis
    by (simp add: replace_attr_values_def)
qed

text \<open>
  Claim C7, amended: the pinned-tab file is the source after two passes, over
  \<^verbatim>\<open>fill\<close> and then over \<^verbatim>\<open>stroke\<close>, with the configured colour (\<^verbatim>\<open>#000000\<close> when
  none is given). A pass leaves unchanged any text in which \<^verbatim>\<open>NAME="\<close> does not occur.
  For a colour without the character \<^verbatim>\<open>$\<close>, a pass keeps the text before the first
  \<^verbatim>\<open>NAME="\<close>, replaces the value that follows, up to the next double quote, by the
  colour, and goes on in the same way after that quote. Text outside these attributes,
  other occurrences of the original colours included, is kept. For the source
  \<^verbatim>\<open><path fill="#112233" stroke="#445566"/>\<close> and the colour \<^verbatim>\<open>#000000\<close> the file
  is \<^verbatim>\<open><path fill="#000000" stroke="#000000"/>\<close>.
\<close>

theorem monochrome_passes:
  \<open>generateSafariPinnedTab g sourceSVG =
     [WriteFile (path_join (outputDir (options g)) ''safari-pinned-tab.svg'')
        (Text (replace_attr_values ''stroke'' (or_default (color (options g)) ''#000000'')
                (replace_attr_values ''fill'' (or_default (color (options g)) ''#000000'')
                   sourceSVG)))]
   \<and> (\<not> sublist (nm @ ''="'') s \<longrightarrow> replace_attr_values nm col s = s)
   \<and> ((nm = ''fill'' \<or> nm = ''stroke'') \<and> CHR ''$'' \<notin> set col \<and> dq \<notin> set v
        \<and> \<not> sublist (nm @ ''="'') (u @ nm @ ''='') \<longrightarrow>
       replace_attr_values nm col (u @ nm @ ''="'' @ v @ ''"'' @ w)
         = u @ nm @ ''="'' @ col @ ''"'' @ replace_attr_values nm col w)
   \<and> monochromeSVG ''#000000'' ''<path fill="#112233" stroke="#445566"/>''
       = ''<path fill="#000000" stroke="#000000"/>''\<close>
proof (intro conjI impI)
  show \<open>generateSafariPinnedTab g sourceSVG =
     [WriteFile (path_join (outputDir (options g)) ''safari-pinned-tab.svg'')
        (Text (replace_attr_values ''stroke'' (or_default (color (options g)) ''#000000'')
                (replace_attr_values ''fill'' (or_default (color (options g)) ''#000000'')
                   sourceSVG)))]\<close>
    by (simp add: generateSafariPinnedTab_def monochromeSVG_def Let_def)
  show \<open>replace_attr_values nm col s = s\<close> if \<open>\<not> sublist (nm @ ''="'') s\<close>
    using that by (rule replace_attr_values_identity)
  show \<open>monochromeSVG ''#000000'' ''<path fill="#112233" stroke="#445566"/>''
       = ''<path fill="#000000" stroke="#000000"/>''\<close>
    by (rule example_default_colour)
  assume a: \<open>(nm = ''fill'' \<or> nm = ''stroke'') \<and> CHR ''$'' \<notin> set col \<and> dq \<notin> set v
        \<and> \<not> sublist (nm @ ''="'') (u @ nm @ ''='')\<close>
  then have nm: "CHR ''$'' \<notin> set nm" by auto
  from a have rest: "CHR ''$'' \<notin> set col" "dq \<notin> set v"
    "\<not> sublist (nm @ [CHR ''='', dq]) (u @ nm @ [CHR ''=''])"
    by simp_all
  from replace_attr_values_step [OF nm rest, of w]
  show \<open>replace_attr_values nm col (u @ nm @ ''="'' @ v @ ''"'' @ w)
         = u @ nm @ ''="'' @ col @ ''"'' @ replace_attr_values nm col w\<close>
    by simp
qed

theorem monochrome_passes_witness:
  \<open>replace_attr_values ''fill'' ''#5bbad5'' ''<path fill="#112233" stroke="#445566"/>''
     = ''<path fill="#5bbad5" stroke="#445566"/>''
   \<and> replace_attr_values ''stroke'' ''#5bbad5'' ''<path fill="#5bbad5" stroke="#445566"/>''
     = ''<path fill="#5bbad5" stroke="#5bbad5"/>''\<close>
proof -
  have idf: \<open>replace_attr_values ''fill'' ''#5bbad5'' '' stroke="#445566"/>''
      = '' stroke="#445566"/>''\<close>
    using monochrome_passes [of _ _ "''fill''" \<open>'' stroke="#445566"/>''\<close> "''#5bbad5''"]
    by (simp add: sublist_code prefix_code)
  have ids: \<open>replace_attr_values ''stroke'' ''#5bbad5'' ''/>'' = ''/>''\<close>
    using monochrome_passes [of _ _ "''stroke''" "''/>''" "''#5bbad5''"]
    by (simp add: sublist_code prefix_code)
  have stf: \<open>replace_attr_values ''fill'' ''#5bbad5''
        (''<path '' @ ''fill'' @ ''="'' @ ''#112233'' @ ''"'' @ '' stroke="#445566"/>'')
      = ''<path '' @ ''fill'' @ ''="'' @ ''#5bbad5'' @ ''"''
        @ replace_attr_values ''fill'' ''#5bbad5'' '' stroke="#445566"/>''\<close>
    using monochrome_passes [of _ _ "''fill''" _ "''#5bbad5''" "''#112233''" "''<path ''"
        \<open>'' stroke="#445566"/>''\<close>]
    by (simp add: sublist_code prefix_code)
  have sts: \<open>replace_attr_values ''stroke'' ''#5bbad5''
        (''<path fill="#5bbad5" '' @ ''stroke'' @ ''="'' @ ''#445566'' @ ''"'' @ ''/>'')
      = ''<path fill="#5bbad5" '' @ ''stroke'' @ ''="'' @ ''#5bbad5'' @ ''"''
        @ replace_attr_values ''stroke'' ''#5bbad5'' ''/>''\<close>
    using monochrome_passes [of _ _ "''stroke''" _ "''#5bbad5''" "''#445566''"
        \<open>''<path fill="#5bbad5" ''\<close> "''/>''"]
    by (simp add: sublist_code prefix_code)
  from stf sts show ?thesis
    by (simp add: idf ids)
qed

end
